theory Spec2Isabelle
  imports Main "HOL-Library.AList"
begin

section \<open>JavaScript values\<close>

text \<open>
  The worker exchanges JSON documents with its clients and with the Durable Object, and
  keeps one document per user in the object's storage. A value is what \<^verbatim>\<open>JSON.parse\<close>
  returns, plus \<^verbatim>\<open>undefined\<close>, which property reads produce and the storage keeps.

  \<^item> Numbers are integers: the numbers the worker computes with are millisecond
    timestamps and array positions.
  \<^item> Strings are lists of 8-bit characters: ASCII text is itself, other text is held as
    its UTF-8 bytes.
  \<^item> An object is the list of its own properties in insertion order. Lookups take the
    first entry of a key; a well-formed object has no key twice. JavaScript lists
    integer-like keys first; no statement below depends on the order of the entries.
    The property name \<^verbatim>\<open>__proto__\<close>, which assignment treats specially, is left out of
    well-formed objects.
\<close>

datatype json =
    JUndef
  | JNull
  | JBool bool
  | JNum int
  | JStr string
  | JArr "json list"
  | JObj "(string \<times> json) list"

datatype error = TypeError | Error string

text \<open>The text of an error; the engine's wording of a \<^verbatim>\<open>TypeError\<close> is kept as a token.\<close>

fun message :: "error \<Rightarrow> string" where
  "message TypeError = ''TypeError''"
| "message (Error m) = m"

definition andThen :: "error + 'a \<Rightarrow> ('a \<Rightarrow> error + 'b) \<Rightarrow> error + 'b" where
  "andThen m f = (case m of Inl e \<Rightarrow> Inl e | Inr x \<Rightarrow> f x)"

fun truthy :: "json \<Rightarrow> bool" where
  "truthy JUndef = False"
| "truthy JNull = False"
| "truthy (JBool b) = b"
| "truthy (JNum n) = (n \<noteq> 0)"
| "truthy (JStr s) = (s \<noteq> [])"
| "truthy (JArr xs) = True"
| "truthy (JObj kvs) = True"

text \<open>\<^verbatim>\<open>a || b\<close>\<close>

definition orElse :: "json \<Rightarrow> json \<Rightarrow> json" where
  "orElse a b = (if truthy a then a else b)"

text \<open>\<^verbatim>\<open>typeof v === 'object' && !Array.isArray(v)\<close> on a truthy value.\<close>

fun isPlainObject :: "json \<Rightarrow> bool" where
  "isPlainObject (JObj kvs) = True"
| "isPlainObject v = False"

subsection \<open>Number to string\<close>

definition digitChar :: "nat \<Rightarrow> char" where
  "digitChar d = (if d < 10 then char_of (48 + d) else char_of (87 + d))"

function radixString :: "nat \<Rightarrow> nat \<Rightarrow> string" where
  "radixString b n =
     (if b < 2 \<or> n < b then [digitChar n] else radixString b (n div b) @ [digitChar (n mod b)])"
  by pat_completeness auto
termination
  by (relation "measure (\<lambda>(b, n). n)") auto

text \<open>\<^verbatim>\<open>String(i)\<close> for an array position, and \<^verbatim>\<open>n.toString(36)\<close>.\<close>

definition decimal :: "nat \<Rightarrow> string" where
  "decimal n = radixString 10 n"

definition toString36 :: "int \<Rightarrow> string" where
  "toString36 n = (if n < 0 then CHR ''-'' # radixString 36 (nat (- n)) else radixString 36 (nat n))"

subsection \<open>Properties\<close>

text \<open>
  The own enumerable properties of a value: what \<^verbatim>\<open>{...v}\<close> copies and \<^verbatim>\<open>for (key in v)\<close>
  visits. An array has its positions, a string its characters.
\<close>

fun ownEntries :: "json \<Rightarrow> (string \<times> json) list" where
  "ownEntries (JObj kvs) = kvs"
| "ownEntries (JArr xs) = zip (map decimal [0..<length xs]) xs"
| "ownEntries (JStr s) = zip (map decimal [0..<length s]) (map (\<lambda>c. JStr [c]) s)"
| "ownEntries v = []"

definition getOwn :: "(string \<times> json) list \<Rightarrow> string \<Rightarrow> json" where
  "getOwn kvs k = (case map_of kvs k of None \<Rightarrow> JUndef | Some v \<Rightarrow> v)"

text \<open>
  \<^verbatim>\<open>v.k\<close>. Reading a property of \<^verbatim>\<open>undefined\<close> or \<^verbatim>\<open>null\<close> throws. The names the worker
  reads are fixed identifiers of its documents, none of them a built-in property of
  strings, arrays or numbers.
\<close>

definition getProp :: "json \<Rightarrow> string \<Rightarrow> error + json" where
  "getProp v k = (if v = JUndef \<or> v = JNull then Inl TypeError else Inr (getOwn (ownEntries v) k))"

text \<open>\<^verbatim>\<open>v?.k\<close>\<close>

definition optProp :: "json \<Rightarrow> string \<Rightarrow> json" where
  "optProp v k = (if v = JUndef \<or> v = JNull then JUndef else getOwn (ownEntries v) k)"

text \<open>
  \<^verbatim>\<open>v.k = x\<close> for a name \<open>k\<close> that is not an array position, in strict mode (the worker
  is an ES module). Assigning to a property of \<^verbatim>\<open>undefined\<close>, \<^verbatim>\<open>null\<close> or a primitive
  throws. An array takes the property beside its elements, where nothing reads it:
  \<^verbatim>\<open>JSON.stringify\<close> writes the elements only, and the two names the worker assigns
  (\<^verbatim>\<open>bookmarks\<close>, \<^verbatim>\<open>updated\<close>) are never read back from an array. The array stays as it is.
\<close>

fun setProp :: "json \<Rightarrow> string \<Rightarrow> json \<Rightarrow> error + json" where
  "setProp (JObj kvs) k x = Inr (JObj (AList.update k x kvs))"
| "setProp (JArr xs) k x = Inr (JArr xs)"
| "setProp v k x = Inl TypeError"

subsection \<open>Serialisation\<close>

text \<open>
  \<^verbatim>\<open>JSON.parse(JSON.stringify(v))\<close>: a property whose value is \<^verbatim>\<open>undefined\<close> is dropped, an
  \<^verbatim>\<open>undefined\<close> array element becomes \<^verbatim>\<open>null\<close>.
\<close>

fun toJSON :: "json \<Rightarrow> json" where
  "toJSON (JObj kvs) = JObj (map (\<lambda>(k, v). (k, toJSON v)) (filter (\<lambda>(k, v). v \<noteq> JUndef) kvs))"
| "toJSON (JArr xs) = JArr (map (\<lambda>v. if v = JUndef then JNull else toJSON v) xs)"
| "toJSON v = v"

section \<open>Configuration\<close>

definition CACHE_TTL_TEXT :: int where "CACHE_TTL_TEXT = 24 * 60 * 60 * 1000"
definition CACHE_TTL_IMAGE :: int where "CACHE_TTL_IMAGE = 7 * 24 * 60 * 60 * 1000"
definition CACHE_TTL_NEWS :: int where "CACHE_TTL_NEWS = 2 * 60 * 60 * 1000"
definition CACHE_TTL_WEATHER :: int where "CACHE_TTL_WEATHER = 30 * 60 * 1000"
definition DEFAULT_CITY :: string where "DEFAULT_CITY = ''Los Angeles''"

section \<open>The Durable Object\<close>

record response =
  status :: nat
  payload :: json

type_synonym storage = "json option"

text \<open>\<^verbatim>\<open>new Response(JSON.stringify(data), {status})\<close>, as the receiver parses it.\<close>

definition respond :: "nat \<Rightarrow> json \<Rightarrow> response" where
  "respond st data = \<lparr>status = st, payload = toJSON data\<rparr>"

subsection \<open>deepMerge\<close>

text \<open>
  The loop of \<^verbatim>\<open>deepMerge\<close> over the properties of \<^verbatim>\<open>source\<close>, with \<^verbatim>\<open>result\<close> as its state.
  The recursive call \<^verbatim>\<open>this.deepMerge(result[key] || {}, source[key])\<close> starts its own
  loop from \<^verbatim>\<open>{...(result[key] || {})}\<close>.
\<close>

function deepMergeLoop ::
  "(string \<times> json) list \<Rightarrow> (string \<times> json) list \<Rightarrow> (string \<times> json) list" where
  "deepMergeLoop result [] = result"
| "deepMergeLoop result ((key, v) # rest) =
     deepMergeLoop
       (AList.update key
          (case v of
             JObj src \<Rightarrow>
               JObj (deepMergeLoop (ownEntries (orElse (getOwn result key) (JObj []))) src)
           | _ \<Rightarrow> v)
          result)
       rest"
  by pat_completeness auto
termination
  by (relation "measure (\<lambda>(r, s). size_list (size_prod (\<lambda>_. 0) size) s)") auto

definition deepMerge :: "json \<Rightarrow> json \<Rightarrow> json" where
  "deepMerge target source = JObj (deepMergeLoop (ownEntries target) (ownEntries source))"

subsection \<open>Methods\<close>

text \<open>
  Each method takes the parsed request body, the clock and the storage, and returns its
  response with the storage it leaves, or the error it throws. Every method writes the
  storage as its last step before responding, so a thrown error leaves the storage as
  it was.
\<close>

definition getData :: "storage \<Rightarrow> response" where
  "getData st =
     (case st of
        None \<Rightarrow> respond 200 (JObj [(''exists'', JBool False)])
      | Some data \<Rightarrow>
          if \<not> truthy data then respond 200 (JObj [(''exists'', JBool False)])
          else respond 200 (JObj [(''exists'', JBool True), (''data'', data)]))"

definition setData :: "json \<Rightarrow> int \<Rightarrow> storage \<Rightarrow> error + response \<times> storage" where
  "setData body now st =
     (if body = JUndef \<or> body = JNull then Inl TypeError
      else
        let b = getOwn (ownEntries body);
            ts = b ''timestamps'';
            userData = JObj
              [(''username'', b ''username''),
               (''city'', orElse (b ''city'') (JStr DEFAULT_CITY)),
               (''interests'', orElse (b ''interests'') (JArr [])),
               (''userBio'', orElse (b ''userBio'') (JStr [])),
               (''slug'', b ''slug''),
               (''github'', orElse (b ''github'') JNull),
               (''repos'', orElse (b ''repos'') (JArr [])),
               (''aiBio'', orElse (b ''aiBio'') JNull),
               (''aiProjectDescriptions'', orElse (b ''aiProjectDescriptions'') (JObj [])),
               (''aiQuote'', orElse (b ''aiQuote'') JNull),
               (''aiBackgroundUrl'', orElse (b ''aiBackgroundUrl'') JNull),
               (''aiCardImageUrl'', orElse (b ''aiCardImageUrl'') JNull),
               (''skills'', orElse (b ''skills'') (JArr [])),
               (''bookmarks'', orElse (b ''bookmarks'') (JArr [])),
               (''timestamps'', JObj
                  [(''created'', JNum now),
                   (''updated'', JNum now),
                   (''textGenerated'', orElse (optProp ts ''textGenerated'') (JNum now)),
                   (''imageGenerated'', orElse (optProp ts ''imageGenerated'') JNull),
                   (''newsUpdated'', orElse (optProp ts ''newsUpdated'') JNull),
                   (''weatherUpdated'', orElse (optProp ts ''weatherUpdated'') JNull)]),
               (''cachedNews'', orElse (b ''cachedNews'') JNull),
               (''cachedWeather'', orElse (b ''cachedWeather'') JNull)]
        in Inr (respond 200 (JObj [(''success'', JBool True), (''data'', userData)]),
                Some userData))"

text \<open>\<^verbatim>\<open>userData.timestamps.updated = Date.now()\<close>, returning \<^verbatim>\<open>userData\<close>.\<close>

definition touch :: "json \<Rightarrow> int \<Rightarrow> error + json" where
  "touch userData now =
     andThen (getProp userData ''timestamps'') (\<lambda>ts.
     andThen (setProp ts ''updated'' (JNum now)) (\<lambda>ts'.
       case userData of
         JObj kvs \<Rightarrow> Inr (JObj (AList.update ''timestamps'' ts' kvs))
       | _ \<Rightarrow> Inr userData))"

definition updateData :: "json \<Rightarrow> int \<Rightarrow> storage \<Rightarrow> error + response \<times> storage" where
  "updateData updates now st =
     (let userData = (case st of None \<Rightarrow> JUndef | Some d \<Rightarrow> d) in
      if \<not> truthy userData
      then Inr (respond 404 (JObj [(''error'', JStr ''User not found'')]), st)
      else
        andThen (touch (deepMerge userData updates) now) (\<lambda>userData'.
          Inr (respond 200 (JObj [(''success'', JBool True), (''data'', userData')]),
               Some userData')))"

definition deleteData :: "storage \<Rightarrow> response \<times> storage" where
  "deleteData st = (respond 200 (JObj [(''success'', JBool True)]), None)"

text \<open>The default icon of a bookmark, U+1F517.\<close>

definition LINK_ICON :: string where
  "LINK_ICON = [CHR 0xF0, CHR 0x9F, CHR 0x94, CHR 0x97]"

text \<open>
  The callback of \<^verbatim>\<open>bookmarks.map\<close> at position \<open>index\<close>. \<^verbatim>\<open>Date.now()\<close> is read in the
  callback, once for each bookmark without an id: \<open>clock index\<close> is that reading.
\<close>

definition bookmarkAt :: "(nat \<Rightarrow> int) \<Rightarrow> nat \<Rightarrow> json \<Rightarrow> json" where
  "bookmarkAt clock index bm =
     (let p = getOwn (ownEntries bm) in
      JObj
        [(''id'', orElse (p ''id'') (JStr (toString36 (clock index) @ decimal index))),
         (''name'', p ''name''),
         (''url'', p ''url''),
         (''icon'', orElse (p ''icon'') (JStr LINK_ICON)),
         (''order'', JNum (int index))])"

fun mapBookmarks :: "(nat \<Rightarrow> int) \<Rightarrow> nat \<Rightarrow> json list \<Rightarrow> error + json list" where
  "mapBookmarks clock index [] = Inr []"
| "mapBookmarks clock index (bm # bms) =
     (if bm = JUndef \<or> bm = JNull then Inl TypeError
      else andThen (mapBookmarks clock (Suc index) bms) (\<lambda>rest.
             Inr (bookmarkAt clock index bm # rest)))"

definition updateBookmarks ::
  "json \<Rightarrow> (nat \<Rightarrow> int) \<Rightarrow> int \<Rightarrow> storage \<Rightarrow> error + response \<times> storage" where
  "updateBookmarks req clock now st =
     andThen (getProp req ''bookmarks'') (\<lambda>bookmarks.
       let userData = (case st of None \<Rightarrow> JUndef | Some d \<Rightarrow> d) in
       if \<not> truthy userData
       then Inr (respond 404 (JObj [(''error'', JStr ''User not found'')]), st)
       else
         andThen (case orElse bookmarks (JArr []) of
                    JArr bms \<Rightarrow> mapBookmarks clock 0 bms
                  | _ \<Rightarrow> Inl TypeError) (\<lambda>items.
         andThen (setProp userData ''bookmarks'' (JArr items)) (\<lambda>userData1.
         andThen (touch userData1 now) (\<lambda>userData2.
           Inr (respond 200
                  (JObj [(''success'', JBool True),
                         (''bookmarks'', getOwn (ownEntries userData2) ''bookmarks'')]),
                Some userData2)))))"

text \<open>
  \<^verbatim>\<open>fetch\<close> of the object: the route, and the \<^verbatim>\<open>catch\<close> that answers 500 with the text of
  the error.
\<close>

definition doFetch ::
  "string \<Rightarrow> json \<Rightarrow> (nat \<Rightarrow> int) \<Rightarrow> int \<Rightarrow> storage \<Rightarrow> response \<times> storage" where
  "doFetch pathname req clock now st =
     (case
        (if pathname = ''/get'' then Inr (getData st, st)
         else if pathname = ''/set'' then setData req now st
         else if pathname = ''/update'' then updateData req now st
         else if pathname = ''/delete'' then Inr (deleteData st)
         else if pathname = ''/update-bookmarks'' then updateBookmarks req clock now st
         else Inr (\<lparr>status = 404, payload = JStr ''Not Found''\<rparr>, st))
      of
        Inl e \<Rightarrow> (respond 500 (JObj [(''error'', JStr (message e))]), st)
      | Inr r \<Rightarrow> r)"

section \<open>Strings\<close>

text \<open>\<^verbatim>\<open>toLowerCase\<close> folds the ASCII letters, \<^verbatim>\<open>trim\<close> strips ASCII white space.\<close>

definition lowerChar :: "char \<Rightarrow> char" where
  "lowerChar c = (let n = (of_char c :: nat) in if 65 \<le> n \<and> n \<le> 90 then char_of (n + 32) else c)"

definition toLowerCase :: "string \<Rightarrow> string" where
  "toLowerCase s = map lowerChar s"

definition isSpace :: "char \<Rightarrow> bool" where
  "isSpace c = (let n = (of_char c :: nat) in n = 32 \<or> (9 \<le> n \<and> n \<le> 13))"

definition trim :: "string \<Rightarrow> string" where
  "trim s = rev (dropWhile isSpace (rev (dropWhile isSpace s)))"

text \<open>\<^verbatim>\<open>s.includes(t)\<close>\<close>

definition strIncludes :: "string \<Rightarrow> string \<Rightarrow> bool" where
  "strIncludes s t = list_ex (\<lambda>i. take (length t) (drop i s) = t) [0..<Suc (length s)]"

text \<open>\<^verbatim>\<open>s.replace(t, '')\<close>: the first occurrence of \<open>t\<close> is removed.\<close>

fun removeFirst :: "string \<Rightarrow> string \<Rightarrow> string" where
  "removeFirst t [] = []"
| "removeFirst t (c # cs) =
     (if take (length t) (c # cs) = t then drop (length t) (c # cs) else c # removeFirst t cs)"

text \<open>\<^verbatim>\<open>s.split('-')[0]\<close>\<close>

definition beforeHyphen :: "string \<Rightarrow> string" where
  "beforeHyphen s = takeWhile (\<lambda>c. c \<noteq> CHR ''-'') s"

section \<open>The worker's surroundings\<close>

text \<open>
  What the worker calls and does not own enters as the outcome of the call. An HTTP
  exchange is lost on the network, or answers with its \<^verbatim>\<open>ok\<close> flag and a body that
  \<^verbatim>\<open>res.json()\<close> parses or rejects.
\<close>

datatype fetched = NetworkError | Reply bool "json option"

text \<open>
  The Workers AI binding, by the three generators that call it: each returns its text
  or throws what \<^verbatim>\<open>ai.run\<close> threw.
\<close>

record ai =
  generateAIBio :: "json \<Rightarrow> json \<Rightarrow> json \<Rightarrow> error + json"
  generateAIProjectDescriptions :: "json \<Rightarrow> error + json"
  generateAIQuote :: "json \<Rightarrow> json \<Rightarrow> json \<Rightarrow> error + json"

text \<open>
  \<^item> \<open>AI\<close>, \<open>R2_BUCKET\<close>: the bindings, absent or present.
  \<^item> \<open>fetchGitHubData\<close>, \<open>fetchRealNews\<close>, \<open>extractSkills\<close>, \<open>generateAndStoreImages\<close>: the
    helpers of these names, whose results the worker stores as they come.
  \<^item> \<open>XIAOMI_CITY_IDS\<close>: the table of city codes.
  \<^item> \<open>xiaomiApi\<close>, \<open>wttrIn\<close>: the two weather services, by city code and by city.
  \<^item> \<open>parseInt\<close>, \<open>roundFloat\<close> (\<^verbatim>\<open>Math.round(parseFloat(x))\<close>): the number a reading
    stands for, \<open>None\<close> when it is not a number.
  \<^item> \<open>weatherDesc\<close>, \<open>weatherEmoji\<close>, \<open>wttrEmoji\<close>: the wording and the icon of a weather
    code (\<^verbatim>\<open>getXiaomiWeatherDesc\<close>, \<^verbatim>\<open>getXiaomiWeatherEmoji\<close>, \<^verbatim>\<open>getWeatherEmojiFromWttr\<close>).
  \<^item> \<open>toNumberOf\<close>: the number a string, an array or an object is converted to in an
    arithmetic expression; \<open>Inr None\<close> is \<^verbatim>\<open>NaN\<close>.
\<close>

record env =
  AI :: "ai option"
  R2_BUCKET :: bool
  fetchGitHubData :: "json \<Rightarrow> error + json"
  fetchRealNews :: "json \<Rightarrow> error + json"
  extractSkills :: "json \<Rightarrow> error + json"
  generateAndStoreImages :: "json \<Rightarrow> json \<Rightarrow> json \<Rightarrow> json \<Rightarrow> error + json"
  XIAOMI_CITY_IDS :: "string \<Rightarrow> string option"
  xiaomiApi :: "string \<Rightarrow> fetched"
  wttrIn :: "string \<Rightarrow> fetched"
  parseInt :: "json \<Rightarrow> int option"
  roundFloat :: "json \<Rightarrow> int option"
  weatherDesc :: "int \<Rightarrow> string"
  weatherEmoji :: "int option \<Rightarrow> string"
  wttrEmoji :: "int option \<Rightarrow> string"
  toNumberOf :: "json \<Rightarrow> error + int option"

section \<open>Weather\<close>

definition INTERNATIONAL_CITIES :: "string list" where
  "INTERNATIONAL_CITIES =
     [''los angeles'',
      ''la'',
      ''new york'',
      ''nyc'',
      ''san francisco'',
      ''sf'',
      ''seattle'',
      ''tokyo'',
      ''london'',
      ''paris'',
      ''singapore'',
      ''sydney'',
      ''toronto'',
      ''vancouver'',
      ''berlin'',
      ''dubai'',
      ''bangkok'',
      ''seoul'',
      [CHR 0xE6, CHR 0xB4, CHR 0x9B, CHR 0xE6, CHR 0x9D, CHR 0x89, CHR 0xE7, CHR 0x9F, CHR 0xB6],
      [CHR 0xE7, CHR 0xBA, CHR 0xBD, CHR 0xE7, CHR 0xBA, CHR 0xA6],
      [CHR 0xE6, CHR 0x97, CHR 0xA7, CHR 0xE9, CHR 0x87, CHR 0x91, CHR 0xE5, CHR 0xB1, CHR 0xB1],
      [CHR 0xE8, CHR 0xA5, CHR 0xBF, CHR 0xE9, CHR 0x9B, CHR 0x85, CHR 0xE5, CHR 0x9B, CHR 0xBE],
      [CHR 0xE4, CHR 0xB8, CHR 0x9C, CHR 0xE4, CHR 0xBA, CHR 0xAC],
      [CHR 0xE4, CHR 0xBC, CHR 0xA6, CHR 0xE6, CHR 0x95, CHR 0xA6],
      [CHR 0xE5, CHR 0xB7, CHR 0xB4, CHR 0xE9, CHR 0xBB, CHR 0x8E],
      [CHR 0xE6, CHR 0x96, CHR 0xB0, CHR 0xE5, CHR 0x8A, CHR 0xA0, CHR 0xE5, CHR 0x9D, CHR 0xA1],
      [CHR 0xE6, CHR 0x82, CHR 0x89, CHR 0xE5, CHR 0xB0, CHR 0xBC],
      [CHR 0xE5, CHR 0xA4, CHR 0x9A, CHR 0xE4, CHR 0xBC, CHR 0xA6, CHR 0xE5, CHR 0xA4, CHR 0x9A],
      [CHR 0xE6, CHR 0xB8, CHR 0xA9, CHR 0xE5, CHR 0x93, CHR 0xA5, CHR 0xE5, CHR 0x8D, CHR 0x8E],
      [CHR 0xE6, CHR 0x9F, CHR 0x8F, CHR 0xE6, CHR 0x9E, CHR 0x97],
      [CHR 0xE8, CHR 0xBF, CHR 0xAA, CHR 0xE6, CHR 0x8B, CHR 0x9C],
      [CHR 0xE6, CHR 0x9B, CHR 0xBC, CHR 0xE8, CHR 0xB0, CHR 0xB7],
      [CHR 0xE9, CHR 0xA6, CHR 0x96, CHR 0xE5, CHR 0xB0, CHR 0x94]]"


text \<open>A number that may be \<^verbatim>\<open>NaN\<close>, as \<^verbatim>\<open>JSON.stringify\<close> writes it.\<close>

definition numOrNull :: "int option \<Rightarrow> json" where
  "numOrNull r = (case r of None \<Rightarrow> JNull | Some n \<Rightarrow> JNum n)"

text \<open>\<^verbatim>\<open>parseInt(x) || d\<close>\<close>

definition parseIntOr :: "env \<Rightarrow> json \<Rightarrow> int \<Rightarrow> int" where
  "parseIntOr e x d = (case parseInt e x of None \<Rightarrow> d | Some n \<Rightarrow> if n = 0 then d else n)"

definition fetchXiaomiWeather :: "env \<Rightarrow> string \<Rightarrow> error + json" where
  "fetchXiaomiWeather e city =
     (let cityLower = trim (toLowerCase city);
          cityId = (case XIAOMI_CITY_IDS e cityLower of
                      Some i \<Rightarrow> Some i
                    | None \<Rightarrow> XIAOMI_CITY_IDS e (trim city))
      in case cityId of
           None \<Rightarrow> Inr JNull
         | Some i \<Rightarrow>
             (case xiaomiApi e i of
                NetworkError \<Rightarrow> Inl (Error ''fetch failed'')
              | Reply ok parsed \<Rightarrow>
                  if \<not> ok then Inr JNull
                  else
                    (case parsed of
                       None \<Rightarrow> Inl (Error ''Unexpected token'')
                     | Some data \<Rightarrow>
                         if \<not> truthy data \<or> \<not> truthy (optProp data ''current'') then Inr JNull
                         else
                           let current = optProp data ''current'';
                               weatherCode = parseIntOr e (optProp current ''weather'') 0;
                               temperature = optProp (optProp current ''temperature'') ''value''
                           in Inr (JObj
                                [(''city'', JStr city),
                                 (''temp'', numOrNull (roundFloat e (orElse temperature (JStr ''22'')))),
                                 (''feels'', numOrNull (roundFloat e
                                    (orElse (optProp (optProp current ''feelsLike'') ''value'')
                                       (orElse temperature (JStr ''22''))))),
                                 (''humidity'', numOrNull (parseInt e
                                    (orElse (optProp (optProp current ''humidity'') ''value'')
                                       (JStr ''50'')))),
                                 (''wind'', numOrNull (roundFloat e
                                    (orElse (optProp (optProp (optProp current ''wind'') ''speed'') ''value'')
                                       (JStr ''10'')))),
                                 (''desc'', JStr (weatherDesc e weatherCode)),
                                 (''icon'', JStr (weatherEmoji e (parseInt e (JNum weatherCode)))),
                                 (''aqi'', orElse (optProp (optProp data ''aqi'') ''aqi'') JNull),
                                 (''pm25'', orElse (optProp (optProp data ''aqi'') ''pm25'') JNull),
                                 (''pm10'', orElse (optProp (optProp data ''aqi'') ''pm10'') JNull),
                                 (''uvIndex'', orElse (optProp current ''uvIndex'') JNull),
                                 (''pressure'', orElse (optProp (optProp current ''pressure'') ''value'') JNull),
                                 (''visibility'', orElse (optProp (optProp current ''visibility'') ''value'') JNull),
                                 (''pubTime'', orElse (optProp current ''pubTime'') JNull),
                                 (''source'', JStr ''xiaomi'')]))))"

text \<open>The \<^verbatim>\<open>try\<close> block of \<^verbatim>\<open>fetchWeather\<close> that asks wttr.in.\<close>

definition fetchWttr :: "env \<Rightarrow> string \<Rightarrow> error + json" where
  "fetchWttr e city =
     (case wttrIn e city of
        NetworkError \<Rightarrow> Inl (Error ''fetch failed'')
      | Reply ok parsed \<Rightarrow>
          if \<not> ok then Inl (Error ''wttr.in returned'')
          else
            (case parsed of
               None \<Rightarrow> Inl (Error ''Unexpected token'')
             | Some data \<Rightarrow>
                 andThen (getProp data ''current_condition'') (\<lambda>cc.
                   let current = optProp cc ''0'' in
                   if \<not> truthy current then Inl (Error ''Invalid wttr.in response'')
                   else Inr (JObj
                     [(''city'', orElse
                         (optProp (optProp (optProp (optProp (optProp data ''nearest_area'') ''0'')
                            ''areaName'') ''0'') ''value'')
                         (JStr city)),
                      (''temp'', JNum (parseIntOr e (optProp current ''temp_C'') 22)),
                      (''feels'', JNum (parseIntOr e (optProp current ''FeelsLikeC'') 23)),
                      (''humidity'', JNum (parseIntOr e (optProp current ''humidity'') 50)),
                      (''wind'', JNum (parseIntOr e (optProp current ''windspeedKmph'') 10)),
                      (''desc'', orElse
                         (optProp (optProp (optProp current ''weatherDesc'') ''0'') ''value'')
                         (JStr [CHR 0xE6, CHR 0x99, CHR 0xB4])),
                      (''icon'', JStr (wttrEmoji e (parseInt e (optProp current ''weatherCode'')))),
                      (''source'', JStr ''wttr.in'')]))))"

text \<open>The static default of the last \<^verbatim>\<open>catch\<close>.\<close>

definition fallbackWeather :: "string \<Rightarrow> json" where
  "fallbackWeather city =
     JObj
       [(''city'', JStr city),
        (''temp'', JNum 22),
        (''feels'', JNum 23),
        (''humidity'', JNum 50),
        (''wind'', JNum 10),
        (''desc'', JStr [CHR 0xE6, CHR 0x95, CHR 0xB0, CHR 0xE6, CHR 0x8D, CHR 0xAE, CHR 0xE8, CHR 0x8E,
                         CHR 0xB7, CHR 0xE5, CHR 0x8F, CHR 0x96, CHR 0xE4, CHR 0xB8, CHR 0xAD]),
        (''icon'', JStr [CHR 0xF0, CHR 0x9F, CHR 0x8C, CHR 0xA4, CHR 0xEF, CHR 0xB8, CHR 0x8F]),
        (''source'', JStr ''fallback'')]"

definition isInternational :: "string \<Rightarrow> bool" where
  "isInternational city =
     (let cityLower = trim (toLowerCase city)
      in list_ex (\<lambda>c. strIncludes cityLower c \<or> strIncludes c cityLower) INTERNATIONAL_CITIES)"

text \<open>
  \<^verbatim>\<open>fetchWeather(env, city)\<close>. The first statement calls \<^verbatim>\<open>city.toLowerCase()\<close>, outside
  every \<^verbatim>\<open>try\<close>: a city that is not a string throws.
\<close>

definition fetchWeather :: "env \<Rightarrow> json \<Rightarrow> error + json" where
  "fetchWeather e c =
     (case c of
        JStr city \<Rightarrow>
          (let xiaomiWeather =
                 (if isInternational city then JNull
                  else case fetchXiaomiWeather e city of Inl err \<Rightarrow> JNull | Inr w \<Rightarrow> w)
           in if truthy xiaomiWeather then Inr xiaomiWeather
              else case fetchWttr e city of
                     Inl err \<Rightarrow> Inr (fallbackWeather city)
                   | Inr w \<Rightarrow> Inr w)
      | _ \<Rightarrow> Inl TypeError)"

section \<open>The worker\<close>

text \<open>
  One Durable Object per identity: \<^verbatim>\<open>env.USER_DO.idFromName(name)\<close> names the object, the
  store maps the name to the object's storage. A call sends the request body as JSON
  text.
\<close>

type_synonym store = "string \<Rightarrow> storage"

definition callDO ::
  "store \<Rightarrow> string \<Rightarrow> string \<Rightarrow> json \<Rightarrow> (nat \<Rightarrow> int) \<Rightarrow> int \<Rightarrow> response \<times> store" where
  "callDO s name pathname req clock now =
     (let (res, st') = doFetch pathname (toJSON req) clock now (s name) in (res, s(name := st')))"

definition jsonResponse :: "json \<Rightarrow> nat \<Rightarrow> response" where
  "jsonResponse data st = respond st data"

text \<open>
  \<^verbatim>\<open>generateSlug\<close>; \<open>random\<close> is \<^verbatim>\<open>Math.random().toString(36).substring(2, 8)\<close>, up to six
  characters out of \<^verbatim>\<open>0-9a-z\<close>.
\<close>

definition generateSlug :: "string \<Rightarrow> string \<Rightarrow> string" where
  "generateSlug username random = toLowerCase username @ ''-'' @ random"

subsection \<open>Freshness\<close>

definition toNumber :: "env \<Rightarrow> json \<Rightarrow> error + int option" where
  "toNumber e v =
     (case v of
        JUndef \<Rightarrow> Inr None
      | JNull \<Rightarrow> Inr (Some 0)
      | JBool b \<Rightarrow> Inr (Some (if b then 1 else 0))
      | JNum n \<Rightarrow> Inr (Some n)
      | _ \<Rightarrow> toNumberOf e v)"

text \<open>\<^verbatim>\<open>now - t > ttl\<close>; a comparison with \<^verbatim>\<open>NaN\<close> is false.\<close>

definition olderThan :: "env \<Rightarrow> int \<Rightarrow> json \<Rightarrow> int \<Rightarrow> error + bool" where
  "olderThan e now t ttl =
     andThen (toNumber e t) (\<lambda>r. Inr (case r of None \<Rightarrow> False | Some n \<Rightarrow> now - n > ttl))"

text \<open>
  The test of \<^verbatim>\<open>handleGetUser\<close> and \<^verbatim>\<open>handlePortfolioPage\<close> on one category,
  \<^verbatim>\<open>!userData.cachedWeather || now - userData.timestamps.weatherUpdated > CONFIG.CACHE_TTL_WEATHER\<close>
  and the same for the news.
\<close>

definition isStale :: "env \<Rightarrow> int \<Rightarrow> json \<Rightarrow> string \<Rightarrow> string \<Rightarrow> int \<Rightarrow> error + bool" where
  "isStale e now userData cached stamp ttl =
     andThen (getProp userData cached) (\<lambda>c.
       if \<not> truthy c then Inr True
       else andThen (getProp userData ''timestamps'') (\<lambda>ts.
            andThen (getProp ts stamp) (\<lambda>t. olderThan e now t ttl)))"

subsection \<open>Generated content\<close>

definition AI_REQUIRED :: string where
  "AI_REQUIRED = ''Workers AI is required. Please ensure: 1) AI binding is configured in wrangler.toml with [ai] section, 2) Your Cloudflare account has Workers AI enabled, 3) You have redeployed after adding the binding.''"

text \<open>The \<^verbatim>\<open>catch\<close> of \<^verbatim>\<open>generateAllAIContent\<close>: every error of a generator is thrown again.\<close>

definition aiFailure :: "error \<Rightarrow> error" where
  "aiFailure err =
     (let m = message err in
      if strIncludes m ''model''
      then Error (''AI model error: '' @ m @ ''. Please check if the model name is correct.'')
      else if strIncludes m ''binding''
      then Error (''AI binding error: '' @ m @ ''. Please verify your wrangler.toml configuration.'')
      else Error (''AI content generation failed: '' @ m))"

text \<open>
  The three generators run under \<^verbatim>\<open>Promise.all\<close>; when more than one fails, the model
  reports the first in the order of the array.
\<close>

definition generateAllAIContent :: "env \<Rightarrow> json \<Rightarrow> json \<Rightarrow> json \<Rightarrow> error + json" where
  "generateAllAIContent e githubData userBio interests =
     andThen (getProp githubData ''user'') (\<lambda>user.
     andThen (getProp githubData ''repos'') (\<lambda>repos.
     andThen (extractSkills e repos) (\<lambda>skills.
       case AI e of
         None \<Rightarrow> Inl (Error AI_REQUIRED)
       | Some a \<Rightarrow>
           (case generateAIBio a user userBio repos of
              Inl err \<Rightarrow> Inl (aiFailure err)
            | Inr bio \<Rightarrow>
                (case generateAIProjectDescriptions a repos of
                   Inl err \<Rightarrow> Inl (aiFailure err)
                 | Inr projectDescriptions \<Rightarrow>
                     (case generateAIQuote a user interests skills of
                        Inl err \<Rightarrow> Inl (aiFailure err)
                      | Inr quote \<Rightarrow>
                          Inr (JObj [(''bio'', bio),
                                     (''projectDescriptions'', projectDescriptions),
                                     (''quote'', quote),
                                     (''skills'', skills)])))))))"

text \<open>
  \<^verbatim>\<open>clientGithubData && clientGithubData.user && clientGithubData.repos\<close> chooses between the
  data the client sent and \<^verbatim>\<open>fetchGitHubData\<close>.
\<close>

definition githubDataFor :: "env \<Rightarrow> json \<Rightarrow> json \<Rightarrow> error + json" where
  "githubDataFor e username clientGithubData =
     (if truthy clientGithubData \<and> truthy (optProp clientGithubData ''user'')
         \<and> truthy (optProp clientGithubData ''repos'')
      then Inr clientGithubData
      else fetchGitHubData e username)"


subsection \<open>handleGenerate\<close>



subsection \<open>handleGetUser\<close>

text \<open>The two tests of \<^verbatim>\<open>handleGetUser\<close>, building \<^verbatim>\<open>updates\<close>.\<close>

definition staleUpdates :: "env \<Rightarrow> int \<Rightarrow> json \<Rightarrow> error + (string \<times> json) list" where
  "staleUpdates e now userData =
     andThen (isStale e now userData ''cachedWeather'' ''weatherUpdated'' CACHE_TTL_WEATHER) (\<lambda>w.
     andThen (if w
              then andThen (getProp userData ''city'') (\<lambda>city.
                   andThen (fetchWeather e city) (\<lambda>weather.
                     Inr [(''cachedWeather'', weather),
                          (''timestamps'', JObj [(''weatherUpdated'', JNum now)])]))
              else Inr []) (\<lambda>updates.
     andThen (isStale e now userData ''cachedNews'' ''newsUpdated'' CACHE_TTL_NEWS) (\<lambda>n.
       if n
       then andThen (getProp userData ''interests'') (\<lambda>interests.
            andThen (fetchRealNews e interests) (\<lambda>news.
              Inr (AList.update ''timestamps''
                     (JObj (AList.update ''newsUpdated'' (JNum now)
                              (ownEntries (getOwn updates ''timestamps''))))
                     (AList.update ''cachedNews'' news updates))))
       else Inr updates)))"

text \<open>\<^verbatim>\<open>Object.assign(userData, updates)\<close>\<close>

definition assign :: "json \<Rightarrow> (string \<times> json) list \<Rightarrow> json" where
  "assign target src =
     (case target of
        JObj kvs \<Rightarrow> JObj (fold (\<lambda>(k, v). AList.update k v) src kvs)
      | _ \<Rightarrow> target)"

definition handleGetUser ::
  "env \<Rightarrow> string \<Rightarrow> int \<Rightarrow> int \<Rightarrow> store \<Rightarrow> (error + response) \<times> store" where
  "handleGetUser e apiPath now doNow s =
     (let slug = removeFirst ''/user/'' apiPath;
          username = beforeHyphen slug
      in
      if username = []
      then (Inr (jsonResponse (JObj [(''error'', JStr ''Invalid slug'')]) 400), s)
      else
        let (res, s1) = callDO s (toLowerCase username) ''/get'' JUndef (\<lambda>i. doNow) doNow;
            result = payload res
        in
        (case andThen (getProp result ''exists'') (\<lambda>ex.
                if \<not> truthy ex then Inr True
                else andThen (getProp result ''data'') (\<lambda>d.
                     andThen (getProp d ''slug'') (\<lambda>sl. Inr (sl \<noteq> JStr slug)))) of
           Inl err \<Rightarrow> (Inl err, s1)
         | Inr True \<Rightarrow> (Inr (jsonResponse (JObj [(''error'', JStr ''User not found'')]) 404), s1)
         | Inr False \<Rightarrow>
             let userData = optProp result ''data'' in
             (case staleUpdates e now userData of
                Inl err \<Rightarrow> (Inl err, s1)
              | Inr updates \<Rightarrow>
                  if updates = []
                  then (Inr (jsonResponse (JObj [(''data'', userData)]) 200), s1)
                  else
                    let (updateRes, s2) =
                          callDO s1 (toLowerCase username) ''/update'' (JObj updates)
                            (\<lambda>i. doNow) doNow
                    in (Inr (jsonResponse (JObj [(''data'', assign userData updates)]) 200), s2))))"

subsection \<open>handleRefresh\<close>

text \<open>
  The body of \<^verbatim>\<open>handleRefresh\<close> between the record it has read and the update it sends:
  nothing here is inside a \<^verbatim>\<open>try\<close>.
\<close>

definition refreshUpdates ::
  "env \<Rightarrow> string \<Rightarrow> json \<Rightarrow> json \<Rightarrow> int \<Rightarrow> error + (string \<times> json) list" where
  "refreshUpdates e username req userData now =
     (let b = getOwn (ownEntries req) in
      andThen (githubDataFor e (JStr username) (b ''githubData'')) (\<lambda>githubData.
      andThen (getProp userData ''userBio'') (\<lambda>userBio.
      andThen (getProp userData ''interests'') (\<lambda>interests.
      andThen (generateAllAIContent e githubData userBio interests) (\<lambda>aiContent.
      andThen (fetchRealNews e interests) (\<lambda>news.
      andThen (getProp userData ''city'') (\<lambda>city.
      andThen (fetchWeather e city) (\<lambda>weather.
      andThen (getProp githubData ''user'') (\<lambda>user.
      let updates =
            [(''github'', user),
             (''repos'', optProp githubData ''repos''),
             (''aiBio'', optProp aiContent ''bio''),
             (''aiProjectDescriptions'', optProp aiContent ''projectDescriptions''),
             (''aiQuote'', optProp aiContent ''quote''),
             (''skills'', optProp aiContent ''skills''),
             (''cachedNews'', news),
             (''cachedWeather'', weather),
             (''timestamps'', JObj
                [(''textGenerated'', JNum now),
                 (''newsUpdated'', JNum now),
                 (''weatherUpdated'', JNum now)])]
      in
      if truthy (b ''forceAll'') \<and> AI e \<noteq> None \<and> R2_BUCKET e
      then
        andThen (generateAndStoreImages e (JStr username) user
                   (optProp aiContent ''skills'') (optProp aiContent ''bio''))
          (\<lambda>imageResults.
        andThen (getProp imageResults ''backgroundUrl'') (\<lambda>bg.
        andThen (getProp imageResults ''cardImageUrl'') (\<lambda>card.
          Inr (AList.update ''timestamps''
                 (JObj (AList.update ''imageGenerated'' (JNum now)
                    (ownEntries (getOwn updates ''timestamps''))))
                 (AList.update ''aiCardImageUrl'' card
                    (AList.update ''aiBackgroundUrl'' bg updates))))))
      else Inr updates)))))))))"

definition handleRefresh ::
  "env \<Rightarrow> string \<Rightarrow> json \<Rightarrow> int \<Rightarrow> int \<Rightarrow> store \<Rightarrow> (error + response) \<times> store" where
  "handleRefresh e method req now doNow s =
     (if method \<noteq> ''POST'' then (Inr \<lparr>status = 405, payload = JStr ''Method Not Allowed''\<rparr>, s)
      else if req = JUndef \<or> req = JNull then (Inl TypeError, s)
      else
        let b = getOwn (ownEntries req) in
        if \<not> truthy (b ''username'')
        then (Inr (jsonResponse (JObj [(''error'', JStr ''Username is required'')]) 400), s)
        else
          (case b ''username'' of
             JStr username \<Rightarrow>
               let name = toLowerCase username;
                   (res, s1) = callDO s name ''/get'' JUndef (\<lambda>i. doNow) doNow;
                   result = payload res
               in
               (case getProp result ''exists'' of
                  Inl err \<Rightarrow> (Inl err, s1)
                | Inr ex \<Rightarrow>
                    if \<not> truthy ex
                    then (Inr (jsonResponse (JObj [(''error'', JStr ''User not found'')]) 404), s1)
                    else
                      (case refreshUpdates e username req (optProp result ''data'') now of
                         Inl err \<Rightarrow> (Inl err, s1)
                       | Inr updates \<Rightarrow>
                           let (updateRes, s2) =
                                 callDO s1 name ''/update'' (JObj updates) (\<lambda>i. doNow) doNow;
                               (updatedRes, s3) =
                                 callDO s2 name ''/get'' JUndef (\<lambda>i. doNow) doNow
                           in (Inr (jsonResponse
                                      (JObj [(''success'', JBool True),
                                             (''data'', optProp (payload updatedRes) ''data'')]) 200),
                               s3)))
           | _ \<Rightarrow> (Inl TypeError, s)))"

subsection \<open>handleUpdateBookmarks\<close>

definition handleUpdateBookmarks ::
  "string \<Rightarrow> json \<Rightarrow> (nat \<Rightarrow> int) \<Rightarrow> int \<Rightarrow> store \<Rightarrow> (error + response) \<times> store" where
  "handleUpdateBookmarks method req clock doNow s =
     (if method \<noteq> ''POST'' then (Inr \<lparr>status = 405, payload = JStr ''Method Not Allowed''\<rparr>, s)
      else if req = JUndef \<or> req = JNull then (Inl TypeError, s)
      else
        let b = getOwn (ownEntries req) in
        if \<not> truthy (b ''username'')
        then (Inr (jsonResponse (JObj [(''error'', JStr ''Username is required'')]) 400), s)
        else
          (case b ''username'' of
             JStr username \<Rightarrow>
               let (res, s1) =
                     callDO s (toLowerCase username) ''/update-bookmarks''
                       (JObj [(''bookmarks'', b ''bookmarks'')]) clock doNow
               in (Inr res, s1)
           | _ \<Rightarrow> (Inl TypeError, s)))"

text \<open>
  The \<^verbatim>\<open>catch\<close> of the worker's \<^verbatim>\<open>fetch\<close>: an error a handler throws is answered with
  status 500 and the text of the error.
\<close>

definition answer :: "(error + response) \<times> store \<Rightarrow> response \<times> store" where
  "answer r =
     (case r of
        (Inl err, s) \<Rightarrow> (respond 500 (JObj [(''error'', JStr (message err))]), s)
      | (Inr res, s) \<Rightarrow> (res, s))"

section \<open>Nested keys\<close>


text \<open>
  A nested key is the path of property names that leads to it: \<open>hasKey v p\<close> when the
  document \<open>v\<close> has the key \<open>p\<close>, \<open>valueAt v p\<close> its value there. Arrays and strings have no
  nested keys.
\<close>

fun hasKey :: "json \<Rightarrow> string list \<Rightarrow> bool" where
  "hasKey (JObj kvs) [k] = (map_of kvs k \<noteq> None)"
| "hasKey (JObj kvs) (k # k' # ks) = (case map_of kvs k of None \<Rightarrow> False | Some v \<Rightarrow> hasKey v (k' # ks))"
| "hasKey v p = False"

fun valueAt :: "json \<Rightarrow> string list \<Rightarrow> json" where
  "valueAt v [] = v"
| "valueAt (JObj kvs) (k # ks) = valueAt (getOwn kvs k) ks"
| "valueAt v (k # ks) = JUndef"



section \<open>Slugs\<close>

text \<open>
  \<^verbatim>\<open>handleGenerate\<close> is the only writer of a slug: every stored record is an object whose slug
  is \<^verbatim>\<open>generateSlug\<close> of the name it is stored under, that name, a hyphen and a random
  suffix without a hyphen. \<open>hyphens\<close> counts the hyphens of a string.
\<close>

definition slugsGenerated :: "store \<Rightarrow> bool" where
  "slugsGenerated s =
     (\<forall>name d. s name = Some d \<longrightarrow>
        (\<exists>kvs random. d = JObj kvs \<and> distinct (map fst kvs) \<and> CHR ''-'' \<notin> set random
           \<and> getOwn kvs ''slug'' = JStr (name @ ''-'' @ random)))"

definition hyphens :: "string \<Rightarrow> nat" where
  "hyphens s = length (filter (\<lambda>c. c = CHR ''-'') s)"

section \<open>Sample documents\<close>

definition exampleFields :: "(string \<times> json) list" where
  "exampleFields =
     [(''slug'', JStr ''octocat-abc123''),
      (''city'', JStr ''paris''),
      (''interests'', JArr [JStr ''Tech'']),
      (''aiQuote'', JObj [(''text'', JStr ''t''), (''author'', JStr ''a'')]),
      (''cachedNews'', JArr []),
      (''cachedWeather'', JObj [(''temp'', JNum 20), (''aqi'', JNum 40), (''source'', JStr ''xiaomi'')]),
      (''timestamps'', JObj [(''created'', JNum 1), (''updated'', JNum 1),
                             (''newsUpdated'', JNum 1), (''weatherUpdated'', JNum 1)])]"

definition exampleRecord :: json where
  "exampleRecord = JObj exampleFields"


text \<open>A store with one record, and the store with the sample record under \<^verbatim>\<open>octocat\<close>.\<close>

definition storeOf :: "string \<Rightarrow> json \<Rightarrow> store" where
  "storeOf name d = (\<lambda>i. if i = name then Some d else None)"

definition exampleStore :: store where
  "exampleStore = storeOf ''octocat'' exampleRecord"

text \<open>A record with a given slug.\<close>

definition slugRecord :: "string \<Rightarrow> json" where
  "slugRecord slug = JObj [(''slug'', JStr slug), (''city'', JStr ''paris'')]"

text \<open>Surroundings in which every service is out of reach and no binding is configured.\<close>

definition offline :: env where
  "offline =
     \<lparr>AI = None, R2_BUCKET = False,
      fetchGitHubData =
        (\<lambda>username. Inr (JObj [(''user'', JObj [(''login'', username)]), (''repos'', JArr [])])),
      fetchRealNews = (\<lambda>interests. Inr (JArr [])),
      extractSkills = (\<lambda>repos. Inr (JArr [])),
      generateAndStoreImages =
        (\<lambda>username user skills bio.
           Inr (JObj [(''backgroundUrl'', JNull), (''cardImageUrl'', JNull)])),
      XIAOMI_CITY_IDS = (\<lambda>city. None),
      xiaomiApi = (\<lambda>cityId. NetworkError),
      wttrIn = (\<lambda>city. NetworkError),
      parseInt = (\<lambda>x. None),
      roundFloat = (\<lambda>x. None),
      weatherDesc = (\<lambda>code. []),
      weatherEmoji = (\<lambda>code. []),
      wttrEmoji = (\<lambda>code. []),
      toNumberOf = (\<lambda>v. Inr None)\<rparr>"






section \<open>The merge of a partial update\<close>






lemma isPlainObject_iff: "isPlainObject v \<longleftrightarrow> (\<exists>kvs. v = JObj kvs)"
  by (cases v) simp_all


lemma hasKey_valueAt_object:
  "hasKey v (k # k' # ks) \<Longrightarrow> isPlainObject (valueAt v [k])"
  by (cases v) (auto simp: getOwn_def isPlainObject_iff split: option.splits elim: hasKey.elims)






lemma map_of_getOwn: "map_of kvs k = Some v \<Longrightarrow> getOwn kvs k = v"
  by (simp add: getOwn_def)






section \<open>The merge, key by key\<close>

text \<open>
  C2. \<^verbatim>\<open>deepMerge\<close> tests the new value only. When the new value is an object and the old one
  is a non-empty string or a non-empty array, the merge starts from \<^verbatim>\<open>{...old}\<close>, the
  characters or elements of the old value under their positions, and the new value does
  not replace the old one: a stored city \<^verbatim>\<open>"LA"\<close> merged with \<^verbatim>\<open>{x: 1}\<close> becomes
  \<^verbatim>\<open>{0: "L", 1: "A", x: 1}\<close>, stored interests \<^verbatim>\<open>["Tech"]\<close> become \<^verbatim>\<open>{0: "Tech", x: 1}\<close>.
\<close>

theorem deepMerge_spreads_old_value:
  "deepMerge (JObj [(''city'', JStr ''LA'')]) (JObj [(''city'', JObj [(''x'', JNum 1)])]) =
     JObj [(''city'', JObj [(''0'', JStr ''L''), (''1'', JStr ''A''), (''x'', JNum 1)])]
   \<and> deepMerge (JObj [(''interests'', JArr [JStr ''Tech''])])
         (JObj [(''interests'', JObj [(''x'', JNum 1)])]) =
     JObj [(''interests'', JObj [(''0'', JStr ''Tech''), (''x'', JNum 1)])]"
  by code_simp

section \<open>Freshness of the cached categories\<close>




section \<open>The weather sources\<close>




section \<open>Requests\<close>

text \<open>Serialisation, lookups in a serialised document, and the calls of the object.\<close>

lemma toJSON_truthy [simp]: "truthy (toJSON v) = truthy v"
  by (cases v) simp_all

lemma toJSON_eq_JUndef [simp]: "toJSON v = JUndef \<longleftrightarrow> v = JUndef"
  by (cases v) simp_all

lemma toJSON_eq_JNull [simp]: "toJSON v = JNull \<longleftrightarrow> v = JNull"
  by (cases v) simp_all

lemma map_of_toJSON:
  "distinct (map fst kvs) \<Longrightarrow>
   map_of (map (\<lambda>(k, v). (k, toJSON v)) (filter (\<lambda>(k, v). v \<noteq> JUndef) kvs)) k =
     (case map_of kvs k of None \<Rightarrow> None | Some v \<Rightarrow> if v = JUndef then None else Some (toJSON v))"
proof (induction kvs)
  case Nil
  then show ?case by simp
next
  case (Cons kv kvs)
  obtain k' v' where kv: "kv = (k', v')" by (cases kv)
  from Cons.prems kv have "k' \<notin> fst ` set kvs" by auto
  then have "map_of kvs k' = None" by (simp add: map_of_eq_None_iff)
  with Cons kv show ?case by (auto split: option.splits)
qed

lemma getOwn_toJSON:
  "distinct (map fst kvs) \<Longrightarrow> getOwn (ownEntries (toJSON (JObj kvs))) k = toJSON (getOwn kvs k)"
  by (simp add: getOwn_def map_of_toJSON split: option.splits)



lemma callDO_get:
  "callDO s name ''/get'' req clock now = (getData (s name), s)"
  by (simp add: callDO_def doFetch_def)

lemma getData_found:
  "truthy d \<Longrightarrow> payload (getData (Some d)) = JObj [(''exists'', JBool True), (''data'', toJSON d)]"
  by (auto simp: getData_def respond_def)



lemma getOwn_Nil: "getOwn [] k = JUndef"
  by (simp add: getOwn_def)

lemma getOwn_Cons: "getOwn ((k, v) # kvs) k' = (if k' = k then v else getOwn kvs k')"
  by (simp add: getOwn_def)

lemma toJSON_Nil: "toJSON (JObj []) = JObj []"
  by simp

lemma toJSON_Cons:
  "toJSON (JObj ((k, v) # kvs)) =
     (if v = JUndef then toJSON (JObj kvs) else JObj ((k, toJSON v) # ownEntries (toJSON (JObj kvs))))"
  by simp

lemma ownEntries_toJSON_JObj:
  "ownEntries (toJSON (JObj kvs)) =
     map (\<lambda>(k, v). (k, toJSON v)) (filter (\<lambda>(k, v). v \<noteq> JUndef) kvs)"
  by simp


section \<open>Creating a record that exists\<close>




section \<open>Refreshing without the generator\<close>

lemma isl_andThen: "(\<And>x. isl (f x)) \<Longrightarrow> isl (andThen m f)"
  by (cases m) (simp_all add: andThen_def)

lemma isl_andThen_first: "isl m \<Longrightarrow> isl (andThen m f)"
  by (cases m) (simp_all add: andThen_def)

lemma ai_unavailable:
  assumes "AI e = None \<or> (\<exists>a. AI e = Some a \<and> (\<forall>u b r. isl (generateAIBio a u b r)))"
  shows "isl (generateAllAIContent e githubData userBio interests)"
  unfolding generateAllAIContent_def
proof (intro isl_andThen)
  fix user repos skills
  show "isl (case AI e of
               None \<Rightarrow> Inl (Error AI_REQUIRED)
             | Some a \<Rightarrow>
                 (case generateAIBio a user userBio repos of
                    Inl err \<Rightarrow> Inl (aiFailure err)
                  | Inr bio \<Rightarrow>
                      (case generateAIProjectDescriptions a repos of
                         Inl err \<Rightarrow> Inl (aiFailure err)
                       | Inr projectDescriptions \<Rightarrow>
                           (case generateAIQuote a user interests skills of
                              Inl err \<Rightarrow> Inl (aiFailure err)
                            | Inr quote \<Rightarrow>
                                Inr (JObj [(''bio'', bio),
                                           (''projectDescriptions'', projectDescriptions),
                                           (''quote'', quote),
                                           (''skills'', skills)])))))"
  proof (cases "AI e")
    case None
    then show ?thesis by simp
  next
    case (Some a)
    with assms have "isl (generateAIBio a user userBio repos)" by simp
    then obtain err where "generateAIBio a user userBio repos = Inl err"
      by (auto simp: isl_def)
    with Some show ?thesis by simp
  qed
qed

lemma refreshUpdates_unavailable:
  assumes "AI e = None \<or> (\<exists>a. AI e = Some a \<and> (\<forall>u b r. isl (generateAIBio a u b r)))"
  shows "isl (refreshUpdates e username req userData now)"
  unfolding refreshUpdates_def Let_def
  by (rule isl_andThen, rule isl_andThen, rule isl_andThen, rule isl_andThen_first,
      rule ai_unavailable [OF assms])

text \<open>
  C4, as the code has it. \<^verbatim>\<open>handleRefresh\<close> calls \<^verbatim>\<open>generateAllAIContent\<close> outside every \<^verbatim>\<open>try\<close>.
  When the AI binding is missing, or the biography generator throws whatever it is
  asked, a refresh request for a stored record is answered with status 500 and the text
  of the error, and the store is left as it was: the record is kept, and is not returned.
\<close>

theorem refresh_fails_without_ai:
  assumes "getOwn b ''username'' = JStr username" "username \<noteq> []"
    and "s (toLowerCase username) = Some d" "truthy d"
    and "AI e = None \<or> (\<exists>a. AI e = Some a \<and> (\<forall>u b r. isl (generateAIBio a u b r)))"
  shows "\<exists>m. answer (handleRefresh e ''POST'' (JObj b) now doNow s) =
               (respond 500 (JObj [(''error'', JStr m)]), s)"
proof -
  let ?name = "toLowerCase username"
  from refreshUpdates_unavailable [OF assms(5), of username "JObj b" "toJSON d" now]
  obtain err where err: "refreshUpdates e username (JObj b) (toJSON d) now = Inl err"
    by (auto simp: isl_def)
  have "handleRefresh e ''POST'' (JObj b) now doNow s = (Inl err, s)"
    using assms(1-4) err
    by (simp add: handleRefresh_def callDO_get getData_found getProp_def optProp_def getOwn_def)
  then have "answer (handleRefresh e ''POST'' (JObj b) now doNow s) =
               (respond 500 (JObj [(''error'', JStr (message err))]), s)"
    by (simp add: answer_def)
  then show ?thesis by blast
qed

theorem refresh_fails_without_ai_witness:
  "getOwn [(''username'', JStr ''octocat'')] ''username'' = JStr ''octocat''
   \<and> exampleStore (toLowerCase ''octocat'') = Some exampleRecord
   \<and> truthy exampleRecord
   \<and> AI offline = None
   \<and> (\<exists>m. answer (handleRefresh offline ''POST'' (JObj [(''username'', JStr ''octocat'')]) 7 9
                exampleStore) =
            (respond 500 (JObj [(''error'', JStr m)]), exampleStore))"
proof -
  have low: "toLowerCase ''octocat'' = ''octocat''" by code_simp
  have h1: "getOwn [(''username'', JStr ''octocat'')] ''username'' = JStr ''octocat''"
    by (simp add: getOwn_def)
  have h2: "''octocat'' \<noteq> []" by simp
  have h3: "exampleStore (toLowerCase ''octocat'') = Some exampleRecord"
    by (simp add: low exampleStore_def storeOf_def)
  have h4: "truthy exampleRecord" by (simp add: exampleRecord_def)
  have h5: "AI offline = None" by (simp add: offline_def)
  have "\<exists>m. answer (handleRefresh offline ''POST'' (JObj [(''username'', JStr ''octocat'')]) 7 9
                exampleStore) =
            (respond 500 (JObj [(''error'', JStr m)]), exampleStore)"
    by (rule refresh_fails_without_ai [where s = exampleStore and username = "''octocat''"
          and b = "[(''username'', JStr ''octocat'')]" and d = exampleRecord and e = offline
          and now = 7 and doNow = 9, OF h1 h2 h3 h4 disjI1 [OF h5]])
  with h1 h3 h4 h5 show ?thesis by (intro conjI)
qed

text \<open>
  C4 as the specification words it: with no AI binding, the refresh of the sample record
  is answered with status 500 and the text of the error, not with the record.
\<close>

theorem refresh_without_ai_counterexample:
  "fst (answer (handleRefresh offline ''POST'' (JObj [(''username'', JStr ''octocat'')]) 7 9
                  exampleStore)) =
     \<lparr>status = 500, payload = JObj [(''error'', JStr AI_REQUIRED)]\<rparr>
   \<and> snd (answer (handleRefresh offline ''POST'' (JObj [(''username'', JStr ''octocat'')]) 7 9
                    exampleStore)) ''octocat'' = Some exampleRecord"
  by code_simp

section \<open>Reading a record with stale weather\<close>

lemma removeFirst_prefix: "t \<noteq> [] \<Longrightarrow> removeFirst t (t @ s) = s"
  by (cases t) simp_all








lemma isPlainObject_toJSON [simp]: "isPlainObject (toJSON v) = isPlainObject v"
  by (cases v) simp_all

lemma keys_update_known:
  "k \<in> set (map fst kvs) \<Longrightarrow> map fst (AList.update k v kvs) = map fst kvs"
  by (simp add: update_keys)




section \<open>Looking up a hyphenated username\<close>

lemma hyphens_append [simp]: "hyphens (a @ b) = hyphens a + hyphens b"
  by (simp add: hyphens_def)

lemma hyphens_none: "CHR ''-'' \<notin> set s \<Longrightarrow> hyphens s = 0"
  by (induction s) (auto simp: hyphens_def)

lemma hyphens_some: "CHR ''-'' \<in> set s \<Longrightarrow> 0 < hyphens s"
  by (induction s) (auto simp: hyphens_def)

lemma hyphens_Cons [simp]: "hyphens (c # s) = (if c = CHR ''-'' then 1 else 0) + hyphens s"
  by (simp add: hyphens_def)

lemma lowerChar_hyphen [simp]: "lowerChar c = CHR ''-'' \<longleftrightarrow> c = CHR ''-''"
proof (cases "65 \<le> (of_char c :: nat) \<and> (of_char c :: nat) \<le> 90")
  case True
  have "char_of ((of_char c :: nat) + 32) \<noteq> CHR ''-''"
  proof
    assume "char_of ((of_char c :: nat) + 32) = CHR ''-''"
    then have "(of_char (char_of ((of_char c :: nat) + 32) :: char) :: nat) = of_char (CHR ''-'')"
      by simp
    then have "((of_char c :: nat) + 32) mod 256 = 45" by simp
    with True show False by simp
  qed
  moreover from True have "c \<noteq> CHR ''-''" by auto
  ultimately show ?thesis using True by (simp add: lowerChar_def Let_def)
next
  case False
  then show ?thesis by (auto simp: lowerChar_def Let_def)
qed

lemma hyphen_lowerChar [simp]: "CHR ''-'' = lowerChar c \<longleftrightarrow> c = CHR ''-''"
  using lowerChar_hyphen [of c] by (metis (full_types))

lemma toLowerCase_hyphen [simp]: "CHR ''-'' \<in> set (toLowerCase s) \<longleftrightarrow> CHR ''-'' \<in> set s"
  by (induction s) (auto simp: toLowerCase_def)

lemma toLowerCase_Nil [simp]: "toLowerCase s = [] \<longleftrightarrow> s = []"
  by (simp add: toLowerCase_def)

lemma beforeHyphen_toLowerCase_Nil:
  "beforeHyphen (toLowerCase s) = [] \<longleftrightarrow> s = [] \<or> hd s = CHR ''-''"
  by (cases s) (simp_all add: toLowerCase_def beforeHyphen_def)

lemma beforeHyphen_append:
  "CHR ''-'' \<in> set a \<Longrightarrow> beforeHyphen (a @ b) = beforeHyphen a"
  by (simp add: beforeHyphen_def takeWhile_append1)

lemma beforeHyphen_clean: "CHR ''-'' \<notin> set (beforeHyphen s)"
  unfolding beforeHyphen_def by (auto dest: set_takeWhileD)



text \<open>
  C9, as the code has it. The stored slugs are generated ones, and a record is stored for
  a username with a hyphen. \<^verbatim>\<open>handleGetUser\<close> takes the slug up to its first hyphen for the
  username, which is not the name the record is stored under. The read by the record's
  slug fails and changes nothing: with 404 and \<^verbatim>\<open>User not found\<close>, or, when the username
  begins with the hyphen, with 400 and \<^verbatim>\<open>Invalid slug\<close>.
\<close>

theorem hyphenated_lookup_fails:
  assumes inv: "slugsGenerated s"
    and hy: "CHR ''-'' \<in> set username"
    and rec: "s (toLowerCase username) = Some d"
    and sl: "getOwn (ownEntries d) ''slug'' = JStr slug"
  shows "handleGetUser e (''/user/'' @ slug) now doNow s =
           (if hd username = CHR ''-''
            then (Inr (jsonResponse (JObj [(''error'', JStr ''Invalid slug'')]) 400), s)
            else (Inr (jsonResponse (JObj [(''error'', JStr ''User not found'')]) 404), s))"
proof -
  let ?lu = "toLowerCase username"
  from inv rec obtain kvs random where d: "d = JObj kvs" and rnd: "CHR ''-'' \<notin> set random"
    and gen: "getOwn kvs ''slug'' = JStr (?lu @ ''-'' @ random)"
    unfolding slugsGenerated_def by blast
  from sl d gen have slug: "slug = ?lu @ ''-'' @ random" by simp
  from hy have lhy: "CHR ''-'' \<in> set ?lu" by simp
  have pre: "beforeHyphen slug = beforeHyphen ?lu"
    unfolding slug using lhy by (rule beforeHyphen_append)
  from hy have ne: "username \<noteq> []" by auto
  show ?thesis
  proof (cases "hd username = CHR ''-''")
    case True
    with ne have "beforeHyphen slug = []" by (simp add: pre beforeHyphen_toLowerCase_Nil)
    with True show ?thesis by (simp add: handleGetUser_def removeFirst_prefix)
  next
    case False
    with ne have pne: "beforeHyphen slug \<noteq> []" by (simp add: pre beforeHyphen_toLowerCase_Nil)
    let ?name = "toLowerCase (beforeHyphen slug)"
    have clean: "CHR ''-'' \<notin> set ?name" by (simp add: beforeHyphen_clean)
    have two: "2 \<le> hyphens slug"
      unfolding slug using hyphens_some [OF lhy] by simp
    show ?thesis
    proof (cases "s ?name")
      case None
      with pne False show ?thesis
        by (simp add: handleGetUser_def removeFirst_prefix callDO_get getData_def respond_def
              getProp_def andThen_def getOwn_Cons getOwn_Nil)
    next
      case (Some d')
      with inv obtain kvs' random' where d': "d' = JObj kvs'" and dist: "distinct (map fst kvs')"
        and rnd': "CHR ''-'' \<notin> set random'"
        and gen': "getOwn kvs' ''slug'' = JStr (?name @ ''-'' @ random')"
        unfolding slugsGenerated_def by blast
      have one: "hyphens (?name @ ''-'' @ random') = 1"
        by (simp add: hyphens_none [OF clean] hyphens_none [OF rnd'])
      have differ: "?name @ ''-'' @ random' \<noteq> slug"
      proof
        assume "?name @ ''-'' @ random' = slug"
        then have "hyphens (?name @ ''-'' @ random') = hyphens slug" by (rule arg_cong)
        with one two show False by simp
      qed
      have stored: "getOwn (ownEntries (toJSON (JObj kvs'))) ''slug'' = JStr (?name @ ''-'' @ random')"
        by (simp add: getOwn_toJSON [OF dist] gen' del: toJSON.simps(1,2))
      from pne False Some d' differ stored show ?thesis
        by (simp add: handleGetUser_def removeFirst_prefix callDO_get getData_found
              getProp_def andThen_def getOwn_Cons getOwn_Nil del: toJSON.simps(1,2))
    qed
  qed
qed

theorem hyphenated_lookup_fails_witness:
  "slugsGenerated (storeOf ''foo-bar'' (slugRecord ''foo-bar-abc123''))
   \<and> CHR ''-'' \<in> set ''Foo-Bar''
   \<and> storeOf ''foo-bar'' (slugRecord ''foo-bar-abc123'') (toLowerCase ''Foo-Bar'') =
       Some (slugRecord ''foo-bar-abc123'')
   \<and> getOwn (ownEntries (slugRecord ''foo-bar-abc123'')) ''slug'' = JStr ''foo-bar-abc123''
   \<and> generateSlug ''Foo-Bar'' ''abc123'' = ''foo-bar-abc123''
   \<and> handleGetUser offline ''/user/foo-bar-abc123'' 7 9
        (storeOf ''foo-bar'' (slugRecord ''foo-bar-abc123'')) =
       (Inr (jsonResponse (JObj [(''error'', JStr ''User not found'')]) 404),
        storeOf ''foo-bar'' (slugRecord ''foo-bar-abc123''))"
proof -
  let ?s = "storeOf ''foo-bar'' (slugRecord ''foo-bar-abc123'')"
  have low: "toLowerCase ''Foo-Bar'' = ''foo-bar''" by code_simp
  have gen: "generateSlug ''Foo-Bar'' ''abc123'' = ''foo-bar-abc123''"
    by (simp add: generateSlug_def low)
  have h1: "slugsGenerated ?s"
    unfolding slugsGenerated_def storeOf_def slugRecord_def
    by (auto simp: getOwn_def intro!: exI [of _ "''abc123''"])
  have h2: "CHR ''-'' \<in> set ''Foo-Bar''" by simp
  have h3: "?s (toLowerCase ''Foo-Bar'') = Some (slugRecord ''foo-bar-abc123'')"
    by (simp add: low storeOf_def)
  have h4: "getOwn (ownEntries (slugRecord ''foo-bar-abc123'')) ''slug'' = JStr ''foo-bar-abc123''"
    by (simp add: slugRecord_def getOwn_def)
  from hyphenated_lookup_fails [where s = ?s and username = "''Foo-Bar''"
         and d = "slugRecord ''foo-bar-abc123''" and slug = "''foo-bar-abc123''"
         and e = offline and now = 7 and doNow = 9, OF h1 h2 h3 h4]
  have "handleGetUser offline ''/user/foo-bar-abc123'' 7 9 ?s =
          (Inr (jsonResponse (JObj [(''error'', JStr ''User not found'')]) 404), ?s)"
    by simp
  with h1 h2 h3 h4 gen show ?thesis by (intro conjI)
qed

text \<open>
  C9 as the specification words it: the record of the username \<^verbatim>\<open>-a\<close> is stored under
  \<^verbatim>\<open>-a\<close> with the slug \<^verbatim>\<open>-a-abc123\<close>, and the read by that slug is answered 400 with
  \<^verbatim>\<open>Invalid slug\<close>, not 404 with \<^verbatim>\<open>User not found\<close>.
\<close>

theorem leading_hyphen_counterexample:
  "generateSlug ''-a'' ''abc123'' = ''-a-abc123''
   \<and> storeOf ''-a'' (slugRecord ''-a-abc123'') (toLowerCase ''-a'') = Some (slugRecord ''-a-abc123'')
   \<and> fst (handleGetUser offline ''/user/-a-abc123'' 7 9 (storeOf ''-a'' (slugRecord ''-a-abc123''))) =
       Inr \<lparr>status = 400, payload = JObj [(''error'', JStr ''Invalid slug'')]\<rparr>"
  by code_simp

section \<open>Replacing the bookmarks\<close>

text \<open>
  The generated id of a bookmark is the clock in base 36 followed by the position in
  base 10. Both numerals are injective and no shorter for a larger number, so that two
  positions never get the same id while the clock does not run backwards.
\<close>

declare radixString.simps [simp del]














end
